theory Spec2Isabelle
  imports Complex_Main
begin

section \<open>Python values and exceptions\<close>

text \<open>
  The bot (\<^verbatim>\<open>crypto_price_bot.py\<close>) is modelled function by function. What the code
  reads from outside (HTTP responses, the clock, the results of the messaging calls) is
  a \<open>world\<close> record; what it does to the outside is a list of \<open>action\<close>s, in the
  order of the calls. Logging is left out: no call of \<^verbatim>\<open>logger\<close> changes the control flow.

  Numbers: a Python \<^verbatim>\<open>int\<close> is an \<open>int\<close>, a Python \<^verbatim>\<open>float\<close> is the rational number
  it denotes, and arithmetic on floats is exact. Binary rounding, overflow, signed zero
  and the non-finite floats are outside this model.

  Strings are lists of bytes (UTF-8); the non-ASCII characters of the message literal
  are written as their bytes.
\<close>

datatype pyval =
    PyNone
  | PyBool bool
  | PyInt int
  | PyFloat rat
  | PyStr string
  | PyList "pyval list"
  | PyDict "(string \<times> pyval) list"

text \<open>
  An outside call (\<^verbatim>\<open>requests\<close>, the Telegram client) answers \<open>Inr\<close> its result, or
  \<open>Inl msg\<close> when it raises an exception \<^verbatim>\<open>e\<close> with \<^verbatim>\<open>str(e) = msg\<close>. Inside a
  \<^verbatim>\<open>try\<close> block that exception is \<open>Raised msg\<close>; the other constructors are the
  exceptions of the Python operations the code itself performs on the parsed bodies.
\<close>

datatype exn = KeyError | IndexError | TypeError | ValueError | Raised string

definition raised :: "string + 'a \<Rightarrow> exn + 'a" where
  "raised r = (case r of Inl msg \<Rightarrow> Inl (Raised msg) | Inr x \<Rightarrow> Inr x)"

text \<open>Sequencing inside a \<^verbatim>\<open>try\<close> block: the first exception ends the block.\<close>

definition try_bind :: "exn + 'a \<Rightarrow> ('a \<Rightarrow> exn + 'b) \<Rightarrow> exn + 'b" where
  "try_bind m f = (case m of Inl e \<Rightarrow> Inl e | Inr x \<Rightarrow> f x)"

text \<open>
  \<^verbatim>\<open>v[key]\<close> with a string key. A dict is the list of its items (the keys of a Python
  dict are distinct). Every other value raises TypeError on a string subscript.
\<close>

fun getitem_key :: "pyval \<Rightarrow> string \<Rightarrow> exn + pyval" where
  "getitem_key (PyDict kvs) k = (case map_of kvs k of None \<Rightarrow> Inl KeyError | Some v \<Rightarrow> Inr v)"
| "getitem_key v k = Inl TypeError"

text \<open>
  \<^verbatim>\<open>v[0]\<close>. A list gives its first element, a str its first character (in UTF-8: the
  lead byte and its continuation bytes); a dict parsed from JSON has only string keys,
  so the key \<^verbatim>\<open>0\<close> is missing; the other values are not subscriptable.
\<close>

definition is_continuation :: "char \<Rightarrow> bool" where
  "is_continuation c = (128 \<le> (of_char c :: nat) \<and> (of_char c :: nat) < 192)"

fun getitem_0 :: "pyval \<Rightarrow> exn + pyval" where
  "getitem_0 (PyList xs) = (case xs of [] \<Rightarrow> Inl IndexError | x # _ \<Rightarrow> Inr x)"
| "getitem_0 (PyStr s) =
     (case s of [] \<Rightarrow> Inl IndexError | c # cs \<Rightarrow> Inr (PyStr (c # takeWhile is_continuation cs)))"
| "getitem_0 (PyDict kvs) = Inl KeyError"
| "getitem_0 v = Inl TypeError"

text \<open>
  \<^verbatim>\<open>float(v)\<close>. The builtin's reading of a string is a parameter of the model
  (\<open>None\<close>: ValueError), so that every theorem holds for each such reading.
\<close>

type_synonym float_of_str = "string \<Rightarrow> rat option"

fun py_float :: "float_of_str \<Rightarrow> pyval \<Rightarrow> exn + rat" where
  "py_float fs (PyStr s) = (case fs s of None \<Rightarrow> Inl ValueError | Some q \<Rightarrow> Inr q)"
| "py_float fs (PyInt i) = Inr (of_int i)"
| "py_float fs (PyFloat q) = Inr q"
| "py_float fs (PyBool b) = Inr (if b then 1 else 0)"
| "py_float fs v = Inl TypeError"

section \<open>Number formatting: the format specs \<^verbatim>\<open>,.2f\<close> and \<^verbatim>\<open>,.0f\<close>\<close>

text \<open>The ASCII digits, and the character of a digit below ten.\<close>

definition is_digit :: "char \<Rightarrow> bool" where
  "is_digit c = (48 \<le> (of_char c :: nat) \<and> (of_char c :: nat) \<le> 57)"

definition digit_char :: "nat \<Rightarrow> char" where
  "digit_char d = ''0123456789'' ! d"

fun digits :: "nat \<Rightarrow> string" where
  "digits n = (if n < 10 then [digit_char n] else digits (n div 10) @ [digit_char (n mod 10)])"

declare digits.simps [simp del]

text \<open>A comma before every group of three digits, counted from the right.\<close>

fun group3 :: "string \<Rightarrow> string" where
  "group3 s =
     (if length s \<le> 3 then s
      else group3 (take (length s - 3) s) @ '','' @ drop (length s - 3) s)"

declare group3.simps [simp del]

definition zpad :: "nat \<Rightarrow> string \<Rightarrow> string" where
  "zpad w s = replicate (w - length s) (CHR ''0'') @ s"

text \<open>Rounding a non-negative rational to the nearest integer, ties to the even one.\<close>

definition round_half_even :: "rat \<Rightarrow> nat" where
  "round_half_even q =
     (let f = nat \<lfloor>q\<rfloor>; r = q - of_int \<lfloor>q\<rfloor>
      in if r < 1 / 2 then f else if 1 / 2 < r then f + 1 else if even f then f else f + 1)"

text \<open>
  \<^verbatim>\<open>format(q, ',.<d>f')\<close> for a float \<open>q\<close>: the sign of \<open>q\<close>, the integer part in groups
  of three, and \<open>d\<close> decimals after a point (no point when \<open>d = 0\<close>).
\<close>

definition format_f :: "nat \<Rightarrow> rat \<Rightarrow> string" where
  "format_f d q =
     (let n = round_half_even (\<bar>q\<bar> * 10 ^ d)
      in (if q < 0 then ''-'' else '''') @ group3 (digits (n div 10 ^ d))
         @ (if d = 0 then '''' else ''.'' @ zpad d (digits (n mod 10 ^ d))))"

text \<open>
  The format spec applied to a Python value: an int or a bool is converted to a float
  first, a str refuses the code \<^verbatim>\<open>f\<close> (ValueError), and None, lists and dicts refuse
  every non-empty format spec (TypeError).
\<close>

fun py_format_f :: "nat \<Rightarrow> pyval \<Rightarrow> exn + string" where
  "py_format_f d (PyInt i) = Inr (format_f d (of_int i))"
| "py_format_f d (PyFloat q) = Inr (format_f d q)"
| "py_format_f d (PyBool b) = Inr (format_f d (if b then 1 else 0))"
| "py_format_f d (PyStr s) = Inl ValueError"
| "py_format_f d v = Inl TypeError"






section \<open>The clock\<close>

record datetime =
  year :: nat
  month :: nat
  day :: nat
  hour :: nat
  minute :: nat
  second :: nat


text \<open>
  \<^verbatim>\<open>strftime("%Y-%m-%d %H:%M:%S")\<close>, every field padded with zeros to its width.
  (Whether \<^verbatim>\<open>%Y\<close> pads a year below 1000 depends on the platform; from the year
  1000 on all agree.)
\<close>

definition strftime :: "datetime \<Rightarrow> string" where
  "strftime t =
     zpad 4 (digits (year t)) @ ''-'' @ zpad 2 (digits (month t)) @ ''-'' @ zpad 2 (digits (day t))
     @ '' '' @ zpad 2 (digits (hour t)) @ '':'' @ zpad 2 (digits (minute t)) @ '':''
     @ zpad 2 (digits (second t))"



section \<open>The outside world\<close>

text \<open>
  A response of \<^verbatim>\<open>requests.get\<close>: its status and what \<^verbatim>\<open>response.json()\<close> does
  (raise, or return the parsed body).
\<close>

record response =
  status_code :: int
  json :: "string + pyval"

text \<open>
  The world of one handler invocation: what each outside call answers.
  \<^verbatim>\<open>send_message\<close> answers with the new message's \<^verbatim>\<open>message_id\<close>;
  \<open>run_repeating\<close> stands for arming the job and storing it in \<^verbatim>\<open>chat_data\<close>.
\<close>

record world =
  requests_get :: "string \<Rightarrow> string + response"
  now_tehran :: datetime
  get_chat :: "string \<Rightarrow> string + unit"
  send_message :: "string \<Rightarrow> string \<Rightarrow> string + int"
  run_repeating :: "string + unit"
  edit_message_text :: "string \<Rightarrow> int \<Rightarrow> string \<Rightarrow> string + unit"
  reply_text :: "string \<Rightarrow> string + unit"

text \<open>
  The calls the program issues, each recorded when it is made (also when it then
  raises). \<open>RunRepeating interval first\<close> always schedules \<^verbatim>\<open>update_price\<close>.
\<close>

datatype action =
    HttpGet string
  | GetChat string
  | SendMessage string string
  | RunRepeating nat nat
  | EditMessageText string int string
  | ReplyText string

text \<open>The module's globals: the configured channel and the tracked message.\<close>

record globals =
  CHANNEL_ID :: string
  message_id :: "int option"

text \<open>\<^verbatim>\<open>not message_id\<close>: true for \<^verbatim>\<open>None\<close> and for \<^verbatim>\<open>0\<close>.\<close>

definition not_message_id :: "int option \<Rightarrow> bool" where
  "not_message_id m = (case m of None \<Rightarrow> True | Some i \<Rightarrow> i = 0)"

section \<open>The rate fetchers\<close>

definition exchange_rates_url :: string where
  "exchange_rates_url = ''https://api.coingecko.com/api/v3/exchange_rates''"

definition orderbook_url :: string where
  "orderbook_url = ''https://api.nobitex.ir/v2/orderbook/USDTIRT''"

definition market_url :: string where
  "market_url =
     ''https://api.coingecko.com/api/v3/simple/price?ids=bitcoin,ethereum,solana,tether&vs_currencies=usd''"

text \<open>
  \<^verbatim>\<open>usd_rate * 50000\<close>: the product of a number (a bool counts as 0 or 1), the
  repetition of a str or a list, TypeError for None and for a dict.
\<close>

fun times_50000 :: "pyval \<Rightarrow> exn + pyval" where
  "times_50000 (PyInt i) = Inr (PyInt (i * 50000))"
| "times_50000 (PyFloat q) = Inr (PyFloat (q * 50000))"
| "times_50000 (PyBool b) = Inr (PyInt (if b then 50000 else 0))"
| "times_50000 (PyStr s) = Inr (PyStr (concat (replicate 50000 s)))"
| "times_50000 (PyList xs) = Inr (PyList (concat (replicate 50000 xs)))"
| "times_50000 v = Inl TypeError"

text \<open>The \<^verbatim>\<open>try\<close> block of \<^verbatim>\<open>get_exchange_rate\<close>, then the function with its handler.\<close>

definition get_exchange_rate_try :: "world \<Rightarrow> exn + pyval" where
  "get_exchange_rate_try w =
     try_bind (raised (requests_get w exchange_rates_url)) (\<lambda>response.
       if status_code response = 200 then
         try_bind (raised (json response)) (\<lambda>data.
         try_bind (getitem_key data ''rates'') (\<lambda>rates.
         try_bind (getitem_key rates ''usd'') (\<lambda>usd.
         try_bind (getitem_key usd ''value'') (\<lambda>usd_rate.
         times_50000 usd_rate))))
       else Inr (PyInt 50000))"

definition get_exchange_rate :: "world \<Rightarrow> pyval \<times> action list" where
  "get_exchange_rate w =
     (case get_exchange_rate_try w of Inl e \<Rightarrow> PyInt 50000 | Inr irr_rate \<Rightarrow> irr_rate,
      [HttpGet exchange_rates_url])"

text \<open>The \<^verbatim>\<open>try\<close> block of \<^verbatim>\<open>get_usdt_irr_rate\<close>, then the function with its handler.\<close>

definition get_usdt_irr_rate_try :: "float_of_str \<Rightarrow> world \<Rightarrow> exn + pyval" where
  "get_usdt_irr_rate_try fs w =
     try_bind (raised (requests_get w orderbook_url)) (\<lambda>response.
       if status_code response = 200 then
         try_bind (raised (json response)) (\<lambda>data.
         try_bind (getitem_key data ''bids'') (\<lambda>bids.
         try_bind (getitem_0 bids) (\<lambda>bid.
         try_bind (getitem_0 bid) (\<lambda>bid_price.
         try_bind (py_float fs bid_price) (\<lambda>best_bid.
         try_bind (getitem_key data ''asks'') (\<lambda>asks.
         try_bind (getitem_0 asks) (\<lambda>ask.
         try_bind (getitem_0 ask) (\<lambda>ask_price.
         try_bind (py_float fs ask_price) (\<lambda>best_ask.
         Inr (PyFloat ((best_bid + best_ask) / 2)))))))))))
       else Inr (PyInt 50000))"

definition get_usdt_irr_rate :: "float_of_str \<Rightarrow> world \<Rightarrow> pyval \<times> action list" where
  "get_usdt_irr_rate fs w =
     (case get_usdt_irr_rate_try fs w of Inl e \<Rightarrow> PyInt 50000 | Inr average_rate \<Rightarrow> average_rate,
      [HttpGet orderbook_url])"

section \<open>The update cycle\<close>

text \<open>The f-string of \<^verbatim>\<open>update_price\<close>; the fields are formatted from left to right.\<close>

definition message_text :: "pyval \<Rightarrow> pyval \<Rightarrow> pyval \<Rightarrow> pyval \<Rightarrow> exn + string" where
  "message_text btc_price eth_price sol_price usdt_irr_rate =
     try_bind (py_format_f 2 btc_price) (\<lambda>btc.
     try_bind (py_format_f 2 eth_price) (\<lambda>eth.
     try_bind (py_format_f 2 sol_price) (\<lambda>sol.
     try_bind (py_format_f 0 usdt_irr_rate) (\<lambda>irr.
     Inr ([CHR 0xF0, CHR 0x9F, CHR 0x92, CHR 0xB0] @ '' Bitcoin (BTC): $'' @ btc @ [CHR 0x0A]
          @ [CHR 0xF0, CHR 0x9F, CHR 0x92, CHR 0x8E] @ '' Ethereum (ETH): $'' @ eth @ [CHR 0x0A]
          @ [CHR 0xE2, CHR 0x9C, CHR 0xA8] @ '' Solana (SOL): $'' @ sol @ [CHR 0x0A]
          @ [CHR 0xF0, CHR 0x9F, CHR 0x92, CHR 0xB5] @ '' Tether (USDT): '' @ irr @ '' ''
          @ [CHR 0xD8, CHR 0xB1, CHR 0xDB, CHR 0x8C, CHR 0xD8, CHR 0xA7, CHR 0xD9, CHR 0x84])))))"

text \<open>
  The four quotes read from the parsed market body, in the order of the source
  (\<^verbatim>\<open>btc_price\<close>, \<^verbatim>\<open>eth_price\<close>, \<^verbatim>\<open>sol_price\<close>, \<^verbatim>\<open>usdt_usd\<close>).
\<close>

definition quote :: "pyval \<Rightarrow> string \<Rightarrow> exn + pyval" where
  "quote data asset = try_bind (getitem_key data asset) (\<lambda>entry. getitem_key entry ''usd'')"

definition market_quotes :: "pyval \<Rightarrow> exn + (pyval \<times> pyval \<times> pyval \<times> pyval)" where
  "market_quotes data =
     try_bind (quote data ''bitcoin'') (\<lambda>btc_price.
     try_bind (quote data ''ethereum'') (\<lambda>eth_price.
     try_bind (quote data ''solana'') (\<lambda>sol_price.
     try_bind (quote data ''tether'') (\<lambda>usdt_usd.
     Inr (btc_price, eth_price, sol_price, usdt_usd)))))"

text \<open>
  The \<^verbatim>\<open>try\<close> block of \<^verbatim>\<open>update_price\<close>, entered with a truthy \<^verbatim>\<open>message_id\<close>:
  its outcome (\<open>Inr ()\<close> is a normal end, also the early \<^verbatim>\<open>return\<close> on a status other
  than 200) and the calls it made.
\<close>

definition update_price_try ::
  "float_of_str \<Rightarrow> string \<Rightarrow> int \<Rightarrow> world \<Rightarrow> (exn + unit) \<times> action list" where
  "update_price_try fs channel mid w =
     (case raised (requests_get w market_url) of
        Inl e \<Rightarrow> (Inl e, [HttpGet market_url])
      | Inr response \<Rightarrow>
          if status_code response \<noteq> 200 then (Inr (), [HttpGet market_url])
          else
            (case try_bind (raised (json response)) market_quotes of
               Inl e \<Rightarrow> (Inl e, [HttpGet market_url])
             | Inr (btc_price, eth_price, sol_price, usdt_usd) \<Rightarrow>
                 (case get_usdt_irr_rate fs w of
                    (usdt_irr_rate, fetched) \<Rightarrow>
                      (let current_time = strftime (now_tehran w)
                       in case message_text btc_price eth_price sol_price usdt_irr_rate of
                            Inl e \<Rightarrow> (Inl e, HttpGet market_url # fetched)
                          | Inr text \<Rightarrow>
                              (raised (edit_message_text w channel mid text),
                               HttpGet market_url # fetched @ [EditMessageText channel mid text])))))"

text \<open>
  \<^verbatim>\<open>update_price\<close>: the guard on \<^verbatim>\<open>message_id\<close>, then the \<^verbatim>\<open>try\<close> block, whose
  handler catches every exception, logs it and returns: the outcome of the block is
  dropped, and \<^verbatim>\<open>update_price\<close> always returns normally. Past the guard
  \<^verbatim>\<open>message_id\<close> is an int other than 0. The function has no \<^verbatim>\<open>global\<close> statement;
  the globals are returned to state what a tick leaves behind.
\<close>

definition update_price :: "float_of_str \<Rightarrow> globals \<Rightarrow> world \<Rightarrow> globals \<times> action list" where
  "update_price fs g w =
     (if not_message_id (message_id g) then (g, [])
      else (g, snd (update_price_try fs (CHANNEL_ID g) (the (message_id g)) w)))"

section \<open>Session bootstrap\<close>

text \<open>The reply of the handler of \<^verbatim>\<open>start\<close>, for an exception with \<^verbatim>\<open>str(e) = details\<close>.\<close>

definition error_message :: "string \<Rightarrow> string \<Rightarrow> string" where
  "error_message details channel =
     ''Error starting the bot. Please check:'' @ [CHR 0x0A]
     @ ''1. The bot is an admin in the channel'' @ [CHR 0x0A]
     @ ''2. The bot has permission to send and edit messages'' @ [CHR 0x0A]
     @ ''3. The channel ID is correct'' @ [CHR 0x0A]
     @ ''Error details: '' @ details @ [CHR 0x0A]
     @ ''Channel ID used: '' @ channel"

text \<open>
  The handler of \<^verbatim>\<open>start\<close>: the reply to the triggering user, after the calls already
  made. Nothing catches an exception of \<^verbatim>\<open>reply_text\<close>, which is then the outcome of
  \<^verbatim>\<open>start\<close>.
\<close>

definition start_except ::
  "globals \<Rightarrow> world \<Rightarrow> string \<Rightarrow> action list \<Rightarrow> globals \<times> (string + unit) \<times> action list" where
  "start_except g w details calls =
     (g, reply_text w (error_message details (CHANNEL_ID g)),
      calls @ [ReplyText (error_message details (CHANNEL_ID g))])"

text \<open>
  \<^verbatim>\<open>start\<close>. Every exception in its \<^verbatim>\<open>try\<close> block comes from an outside call:
  \<^verbatim>\<open>update_price\<close> returns normally.
\<close>

definition start ::
  "float_of_str \<Rightarrow> globals \<Rightarrow> world \<Rightarrow> globals \<times> (string + unit) \<times> action list" where
  "start fs g w =
     (case get_chat w (CHANNEL_ID g) of
        Inl details \<Rightarrow> start_except g w details [GetChat (CHANNEL_ID g)]
      | Inr chat \<Rightarrow>
          (case send_message w (CHANNEL_ID g) ''Starting price updates...'' of
             Inl details \<Rightarrow>
               start_except g w details
                 [GetChat (CHANNEL_ID g), SendMessage (CHANNEL_ID g) ''Starting price updates...'']
           | Inr mid \<Rightarrow>
               (let g' = g\<lparr>message_id := Some mid\<rparr>;
                    calls = [GetChat (CHANNEL_ID g),
                             SendMessage (CHANNEL_ID g) ''Starting price updates...'',
                             RunRepeating 300 0]
                in case run_repeating w of
                     Inl details \<Rightarrow> start_except g' w details calls
                   | Inr job \<Rightarrow>
                       (case update_price fs g' w of
                          (g'', updated) \<Rightarrow> (g'', Inr (), calls @ updated)))))"

section \<open>The program\<close>

text \<open>
  \<^verbatim>\<open>run_polling\<close> dispatches the events of the process to the two handlers: a
  \<^verbatim>\<open>/start\<close> command to \<^verbatim>\<open>start\<close>, a firing of the job to \<^verbatim>\<open>update_price\<close>, each with
  the world it runs in. An exception leaving a handler is logged by the dispatcher, and
  the next event is served.
\<close>

datatype event = StartCommand world | JobFiring world

fun run_polling :: "float_of_str \<Rightarrow> globals \<Rightarrow> event list \<Rightarrow> globals \<times> action list" where
  "run_polling fs g [] = (g, [])"
| "run_polling fs g (StartCommand w # evs) =
     (case start fs g w of
        (g', outcome, acts) \<Rightarrow>
          (case run_polling fs g' evs of (g'', rest) \<Rightarrow> (g'', acts @ rest)))"
| "run_polling fs g (JobFiring w # evs) =
     (case update_price fs g w of
        (g', acts) \<Rightarrow>
          (case run_polling fs g' evs of (g'', rest) \<Rightarrow> (g'', acts @ rest)))"

text \<open>
  The module from its first line: the two environment variables are required (a missing
  or empty one raises ValueError before anything runs), \<^verbatim>\<open>message_id\<close> starts as
  \<^verbatim>\<open>None\<close>, and \<^verbatim>\<open>main\<close> polls.
\<close>

definition main ::
  "float_of_str \<Rightarrow> string option \<Rightarrow> string option \<Rightarrow> event list \<Rightarrow> exn + (globals \<times> action list)" where
  "main fs token channel evs =
     (if token = None \<or> token = Some [] then Inl ValueError
      else if channel = None \<or> channel = Some [] then Inl ValueError
      else Inr (run_polling fs \<lparr>CHANNEL_ID = the channel, message_id = None\<rparr> evs))"

section \<open>A concrete run\<close>

text \<open>
  One reading of \<^verbatim>\<open>float\<close> on strings, used where a theorem is evaluated: a non-empty
  string of ASCII digits denotes its decimal value.
\<close>

definition float_of_digits :: float_of_str where
  "float_of_digits s =
     (if s \<noteq> [] \<and> list_all is_digit s
      then Some (of_nat (foldl (\<lambda>a c. 10 * a + (of_char c - 48)) 0 s))
      else None)"

text \<open>
  The bodies of the first scenario of the specification, and a world that serves them
  with status 200, accepts every messaging call and numbers the placeholder message 7.
\<close>

definition scenario_market :: pyval where
  "scenario_market =
     PyDict [(''bitcoin'', PyDict [(''usd'', PyInt 65000)]),
             (''ethereum'', PyDict [(''usd'', PyInt 3200)]),
             (''solana'', PyDict [(''usd'', PyInt 150)]),
             (''tether'', PyDict [(''usd'', PyInt 1)])]"

definition scenario_orderbook :: pyval where
  "scenario_orderbook =
     PyDict [(''bids'', PyList [PyList [PyStr ''58400'', PyStr ''12'']]),
             (''asks'', PyList [PyList [PyStr ''58600'', PyStr ''3'']])]"

definition scenario_get :: "string \<Rightarrow> string + response" where
  "scenario_get url =
     (if url = market_url then Inr \<lparr>status_code = 200, json = Inr scenario_market\<rparr>
      else if url = orderbook_url then Inr \<lparr>status_code = 200, json = Inr scenario_orderbook\<rparr>
      else Inl ''unknown host'')"

definition scenario_world :: world where
  "scenario_world =
     \<lparr>requests_get = scenario_get,
      now_tehran = \<lparr>year = 2024, month = 3, day = 9, hour = 4, minute = 5, second = 6\<rparr>,
      get_chat = (\<lambda>chat_id. Inr ()),
      send_message = (\<lambda>chat_id text. Inr 7),
      run_repeating = Inr (),
      edit_message_text = (\<lambda>chat_id mid text. Inr ()),
      reply_text = (\<lambda>text. Inr ())\<rparr>"

text \<open>The third scenario: every HTTP request is answered by status 503.\<close>

definition unavailable_world :: world where
  "unavailable_world =
     scenario_world\<lparr>requests_get := (\<lambda>url. Inr \<lparr>status_code = 503, json = Inl ''no JSON''\<rparr>)\<rparr>"

text \<open>
  The second scenario: the order-book request raises, everything else as before. And a
  world whose placeholder message gets the identifier 0.
\<close>

definition orderbook_down_world :: world where
  "orderbook_down_world =
     scenario_world\<lparr>requests_get :=
       (\<lambda>url. if url = orderbook_url then Inl ''connection refused'' else scenario_get url)\<rparr>"

definition zero_id_world :: world where
  "zero_id_world = scenario_world\<lparr>send_message := (\<lambda>chat_id text. Inr 0)\<rparr>"

text \<open>A world whose channel cannot be read.\<close>

definition no_channel_world :: world where
  "no_channel_world = scenario_world\<lparr>get_chat := (\<lambda>chat_id. Inl ''Chat not found'')\<rparr>"

text \<open>The globals at startup, and after a bootstrap that sent message 7.\<close>

definition fresh :: globals where
  "fresh = \<lparr>CHANNEL_ID = ''@prices'', message_id = None\<rparr>"

definition tracking :: globals where
  "tracking = \<lparr>CHANNEL_ID = ''@prices'', message_id = Some 7\<rparr>"

section \<open>Evaluation lemmas\<close>

lemma try_bind_simps:
  "try_bind (Inl e) f = Inl e" "try_bind (Inr x) f = f x"
  by (simp_all add: try_bind_def)

lemma raised_simps:
  "raised (Inl msg) = Inl (Raised msg)" "raised (Inr x) = Inr x"
  by (simp_all add: raised_def)

lemma urls_distinct:
  "market_url \<noteq> orderbook_url" "orderbook_url \<noteq> market_url"
  "exchange_rates_url \<noteq> market_url" "exchange_rates_url \<noteq> orderbook_url"
  by (simp_all add: market_url_def orderbook_url_def exchange_rates_url_def)

lemma float_of_digits_scenario:
  "float_of_digits ''58400'' = Some 58400" "float_of_digits ''58600'' = Some 58600"
  by (simp_all add: float_of_digits_def is_digit_def)

lemmas fmt = format_f_def round_half_even_def digits.simps group3.simps zpad_def digit_char_def Let_def

lemma scenario_quotes:
  "market_quotes scenario_market = Inr (PyInt 65000, PyInt 3200, PyInt 150, PyInt 1)"
  by (simp add: market_quotes_def quote_def scenario_market_def try_bind_simps)

lemma fallback_text:
  "message_text (PyInt 65000) (PyInt 3200) (PyInt 150) (PyInt 50000) =
     Inr ([CHR 0xF0, CHR 0x9F, CHR 0x92, CHR 0xB0] @ '' Bitcoin (BTC): $65,000.00'' @ [CHR 0x0A]
          @ [CHR 0xF0, CHR 0x9F, CHR 0x92, CHR 0x8E] @ '' Ethereum (ETH): $3,200.00'' @ [CHR 0x0A]
          @ [CHR 0xE2, CHR 0x9C, CHR 0xA8] @ '' Solana (SOL): $150.00'' @ [CHR 0x0A]
          @ [CHR 0xF0, CHR 0x9F, CHR 0x92, CHR 0xB5] @ '' Tether (USDT): 50,000 ''
          @ [CHR 0xD8, CHR 0xB1, CHR 0xDB, CHR 0x8C, CHR 0xD8, CHR 0xA7, CHR 0xD9, CHR 0x84])"
  by (simp add: message_text_def try_bind_simps fmt)

lemma get_usdt_irr_rate_failure:
  assumes "(\<exists>msg. requests_get w orderbook_url = Inl msg)
     \<or> (\<exists>r. requests_get w orderbook_url = Inr r \<and> status_code r \<noteq> 200)
     \<or> (\<exists>e. get_usdt_irr_rate_try fs w = Inl e)"
  shows "get_usdt_irr_rate fs w = (PyInt 50000, [HttpGet orderbook_url])"
  using assms
  by (auto simp: get_usdt_irr_rate_def get_usdt_irr_rate_try_def raised_simps try_bind_simps)

lemma scenario_text:
  "message_text (PyInt 65000) (PyInt 3200) (PyInt 150) (PyFloat 58500) =
     Inr ([CHR 0xF0, CHR 0x9F, CHR 0x92, CHR 0xB0] @ '' Bitcoin (BTC): $65,000.00'' @ [CHR 0x0A]
          @ [CHR 0xF0, CHR 0x9F, CHR 0x92, CHR 0x8E] @ '' Ethereum (ETH): $3,200.00'' @ [CHR 0x0A]
          @ [CHR 0xE2, CHR 0x9C, CHR 0xA8] @ '' Solana (SOL): $150.00'' @ [CHR 0x0A]
          @ [CHR 0xF0, CHR 0x9F, CHR 0x92, CHR 0xB5] @ '' Tether (USDT): 58,500 ''
          @ [CHR 0xD8, CHR 0xB1, CHR 0xDB, CHR 0x8C, CHR 0xD8, CHR 0xA7, CHR 0xD9, CHR 0x84])"
  by (simp add: message_text_def try_bind_simps fmt)

lemma scenario_rate:
  assumes "fs ''58400'' = Some 58400" and "fs ''58600'' = Some 58600"
  shows "get_usdt_irr_rate fs scenario_world = (PyFloat 58500, [HttpGet orderbook_url])"
  using assms
  by (simp add: get_usdt_irr_rate_def get_usdt_irr_rate_try_def scenario_world_def scenario_get_def
      scenario_orderbook_def urls_distinct raised_simps try_bind_simps)

lemma scenario_tick:
  assumes "fs ''58400'' = Some 58400" and "fs ''58600'' = Some 58600"
  shows "update_price fs tracking scenario_world
     = (tracking,
        [HttpGet market_url, HttpGet orderbook_url,
         EditMessageText ''@prices'' 7
           ([CHR 0xF0, CHR 0x9F, CHR 0x92, CHR 0xB0] @ '' Bitcoin (BTC): $65,000.00'' @ [CHR 0x0A]
            @ [CHR 0xF0, CHR 0x9F, CHR 0x92, CHR 0x8E] @ '' Ethereum (ETH): $3,200.00'' @ [CHR 0x0A]
            @ [CHR 0xE2, CHR 0x9C, CHR 0xA8] @ '' Solana (SOL): $150.00'' @ [CHR 0x0A]
            @ [CHR 0xF0, CHR 0x9F, CHR 0x92, CHR 0xB5] @ '' Tether (USDT): 58,500 ''
            @ [CHR 0xD8, CHR 0xB1, CHR 0xDB, CHR 0x8C, CHR 0xD8, CHR 0xA7, CHR 0xD9, CHR 0x84])])"
proof -
  have market: "requests_get scenario_world market_url
      = Inr \<lparr>status_code = 200, json = Inr scenario_market\<rparr>"
    by (simp add: scenario_world_def scenario_get_def)
  show ?thesis
    using scenario_text
    by (simp add: update_price_def update_price_try_def not_message_id_def tracking_def market
        scenario_quotes scenario_rate [OF assms] raised_simps try_bind_simps)
qed

section \<open>The shape of a formatted number\<close>


















section \<open>What a tick and a run leave behind\<close>

lemma update_price_globals: "fst (update_price fs g w) = g"
  by (simp add: update_price_def)

lemma job_firings_globals: "fst (run_polling fs g (map JobFiring ws)) = g"
proof (induction ws)
  case Nil
  show ?case by simp
next
  case (Cons w ws)
  obtain acts where tick: "update_price fs g w = (g, acts)"
    using update_price_globals [of fs g w] by (cases "update_price fs g w") simp
  obtain rest where later: "run_polling fs g (map JobFiring ws) = (g, rest)"
    using Cons.IH by (cases "run_polling fs g (map JobFiring ws)") simp
  show ?case by (simp add: tick later)
qed

lemma update_price_result: "update_price fs g w = (g', acts) \<Longrightarrow> g' = g"
  using update_price_globals [of fs g w] by simp

lemma start_message_id:
  "message_id (fst (start fs g w))
     = (case get_chat w (CHANNEL_ID g) of
          Inl details \<Rightarrow> message_id g
        | Inr chat \<Rightarrow>
            (case send_message w (CHANNEL_ID g) ''Starting price updates...'' of
               Inl details \<Rightarrow> message_id g
             | Inr mid \<Rightarrow> Some mid))"
  by (auto simp: start_def start_except_def Let_def dest: update_price_result
      split: sum.splits prod.splits)

lemma update_price_falsy:
  "not_message_id (message_id g) \<Longrightarrow> update_price fs g w = (g, [])"
  by (simp add: update_price_def)

lemma job_firings_falsy:
  "not_message_id (message_id g) \<Longrightarrow> run_polling fs g (map JobFiring ws) = (g, [])"
  by (induction ws) (simp_all add: update_price_falsy)

lemma get_usdt_irr_rate_calls: "snd (get_usdt_irr_rate fs w) = [HttpGet orderbook_url]"
  by (simp add: get_usdt_irr_rate_def)

lemma update_price_try_gets:
  "HttpGet url \<in> set (snd (update_price_try fs channel mid w))
     \<Longrightarrow> url = market_url \<or> url = orderbook_url"
  by (auto simp: update_price_try_def get_usdt_irr_rate_def Let_def
      split: sum.splits prod.splits if_splits)

lemma update_price_gets:
  "update_price fs g w = (g', acts) \<Longrightarrow> HttpGet url \<in> set acts
     \<Longrightarrow> url = market_url \<or> url = orderbook_url"
  by (auto simp: update_price_def dest: update_price_try_gets split: if_splits)

lemma start_gets:
  "start fs g w = (g', outcome, acts) \<Longrightarrow> HttpGet url \<in> set acts
     \<Longrightarrow> url = market_url \<or> url = orderbook_url"
  by (auto simp: start_def start_except_def Let_def dest: update_price_gets
      split: sum.splits prod.splits)

lemma run_polling_gets:
  "run_polling fs g evs = (g', acts) \<Longrightarrow> HttpGet url \<in> set acts
     \<Longrightarrow> url = market_url \<or> url = orderbook_url"
proof (induction fs g evs arbitrary: g' acts rule: run_polling.induct)
  case (1 fs g)
  then show ?case by simp
next
  case (2 fs g w evs)
  then show ?case
    by (auto dest: start_gets split: prod.splits)
next
  case (3 fs g w evs)
  then show ?case
    by (auto dest: update_price_gets split: prod.splits)
qed

section \<open>Timestamps and the emitted text\<close>





















section \<open>The update cycle without a tracked message\<close>

text \<open>
  C4. While no message identifier has been assigned (\<^verbatim>\<open>message_id\<close> is \<^verbatim>\<open>None\<close>), an
  invocation of \<^verbatim>\<open>update_price\<close> is a no-op: it issues no call at all, so no HTTP fetch
  and no edit, and leaves the globals as they are, whatever the world would answer.
\<close>

theorem update_price_without_message:
  "update_price fs \<lparr>CHANNEL_ID = channel, message_id = None\<rparr> w
     = (\<lparr>CHANNEL_ID = channel, message_id = None\<rparr>, [])"
  by (simp add: update_price_def not_message_id_def)

section \<open>Failure of the market quotes\<close>

text \<open>
  C1. A tick whose market-quotes fetch fails makes no edit call, leaves the tracked
  message reference as it was, and returns normally. The fetch fails when the request
  raises, when the status is not 200, or when the four quotes cannot be read from the
  body (\<^verbatim>\<open>response.json()\<close> raises, or one of the subscripts does). With a tracked
  message the only call of the tick is then the GET of the market quotes; the value
  returned is the normal result of \<^verbatim>\<open>update_price\<close>, whose handler has caught whatever
  was raised.
\<close>

theorem market_fetch_failure_aborts_tick:
  assumes "(\<exists>msg. requests_get w market_url = Inl msg)
     \<or> (\<exists>r. requests_get w market_url = Inr r
            \<and> (status_code r \<noteq> 200 \<or> (\<exists>e. try_bind (raised (json r)) market_quotes = Inl e)))"
  shows "update_price fs g w
           = (g, if not_message_id (message_id g) then [] else [HttpGet market_url])"
  using assms
  by (auto simp: update_price_def update_price_try_def raised_simps)

theorem market_fetch_failure_witness:
  "(\<exists>r. requests_get unavailable_world market_url = Inr r \<and> status_code r \<noteq> 200)
   \<and> update_price float_of_digits tracking unavailable_world = (tracking, [HttpGet market_url])"
  using market_fetch_failure_aborts_tick [of unavailable_world float_of_digits tracking]
  by (simp add: unavailable_world_def tracking_def not_message_id_def)

section \<open>The order book\<close>

text \<open>
  C2. When the order-book fetch fails (the request raises, the status is not 200, or
  anything raises while the body is read: the third case is every exception of the
  \<^verbatim>\<open>try\<close> block), \<^verbatim>\<open>get_usdt_irr_rate\<close> returns exactly \<^verbatim>\<open>50000\<close>. The failure does
  not abort the tick: whenever the market quotes were read and the message formats, the
  tick goes on to edit the tracked message with the text built from the rate 50000, and
  its only calls are the two GETs and that edit.
\<close>

theorem orderbook_failure_falls_back:
  assumes "(\<exists>msg. requests_get w orderbook_url = Inl msg)
     \<or> (\<exists>r. requests_get w orderbook_url = Inr r \<and> status_code r \<noteq> 200)
     \<or> (\<exists>e. get_usdt_irr_rate_try fs w = Inl e)"
  shows "get_usdt_irr_rate fs w = (PyInt 50000, [HttpGet orderbook_url])
     \<and> (\<forall>mid r data btc eth sol usdt text.
           message_id g = Some mid \<and> mid \<noteq> 0
           \<and> requests_get w market_url = Inr r \<and> status_code r = 200 \<and> json r = Inr data
           \<and> market_quotes data = Inr (btc, eth, sol, usdt)
           \<and> message_text btc eth sol (PyInt 50000) = Inr text
           \<longrightarrow> update_price fs g w
                 = (g, [HttpGet market_url, HttpGet orderbook_url,
                        EditMessageText (CHANNEL_ID g) mid text]))"
proof -
  have rate: "get_usdt_irr_rate fs w = (PyInt 50000, [HttpGet orderbook_url])"
    using assms by (rule get_usdt_irr_rate_failure)
  show ?thesis
    by (simp add: rate update_price_def update_price_try_def not_message_id_def
        raised_simps try_bind_simps)
qed

theorem orderbook_failure_witness:
  "requests_get orderbook_down_world orderbook_url = Inl ''connection refused''
   \<and> get_usdt_irr_rate float_of_digits orderbook_down_world = (PyInt 50000, [HttpGet orderbook_url])
   \<and> update_price float_of_digits tracking orderbook_down_world
       = (tracking,
          [HttpGet market_url, HttpGet orderbook_url,
           EditMessageText ''@prices'' 7
             ([CHR 0xF0, CHR 0x9F, CHR 0x92, CHR 0xB0] @ '' Bitcoin (BTC): $65,000.00'' @ [CHR 0x0A]
              @ [CHR 0xF0, CHR 0x9F, CHR 0x92, CHR 0x8E] @ '' Ethereum (ETH): $3,200.00'' @ [CHR 0x0A]
              @ [CHR 0xE2, CHR 0x9C, CHR 0xA8] @ '' Solana (SOL): $150.00'' @ [CHR 0x0A]
              @ [CHR 0xF0, CHR 0x9F, CHR 0x92, CHR 0xB5] @ '' Tether (USDT): 50,000 ''
              @ [CHR 0xD8, CHR 0xB1, CHR 0xDB, CHR 0x8C, CHR 0xD8, CHR 0xA7, CHR 0xD9, CHR 0x84])])"
proof -
  have down: "requests_get orderbook_down_world orderbook_url = Inl ''connection refused''"
    by (simp add: orderbook_down_world_def)
  have market: "requests_get orderbook_down_world market_url
      = Inr \<lparr>status_code = 200, json = Inr scenario_market\<rparr>"
    by (simp add: orderbook_down_world_def scenario_get_def urls_distinct)
  from down have fails: "(\<exists>msg. requests_get orderbook_down_world orderbook_url = Inl msg)
     \<or> (\<exists>r. requests_get orderbook_down_world orderbook_url = Inr r \<and> status_code r \<noteq> 200)
     \<or> (\<exists>e. get_usdt_irr_rate_try float_of_digits orderbook_down_world = Inl e)"
    by simp
  note inst = orderbook_failure_falls_back [OF fails, of tracking]
  from inst have rate: "get_usdt_irr_rate float_of_digits orderbook_down_world
      = (PyInt 50000, [HttpGet orderbook_url])"
    by simp
  from inst market scenario_quotes fallback_text
  have "update_price float_of_digits tracking orderbook_down_world
       = (tracking, [HttpGet market_url, HttpGet orderbook_url,
            EditMessageText (CHANNEL_ID tracking) 7
             ([CHR 0xF0, CHR 0x9F, CHR 0x92, CHR 0xB0] @ '' Bitcoin (BTC): $65,000.00'' @ [CHR 0x0A]
              @ [CHR 0xF0, CHR 0x9F, CHR 0x92, CHR 0x8E] @ '' Ethereum (ETH): $3,200.00'' @ [CHR 0x0A]
              @ [CHR 0xE2, CHR 0x9C, CHR 0xA8] @ '' Solana (SOL): $150.00'' @ [CHR 0x0A]
              @ [CHR 0xF0, CHR 0x9F, CHR 0x92, CHR 0xB5] @ '' Tether (USDT): 50,000 ''
              @ [CHR 0xD8, CHR 0xB1, CHR 0xDB, CHR 0x8C, CHR 0xD8, CHR 0xA7, CHR 0xD9, CHR 0x84])])"
    by (simp add: tracking_def)
  with down rate show ?thesis by (simp add: tracking_def)
qed



section \<open>The tracked message reference\<close>

text \<open>
  C9. No tick changes the tracked message reference: whatever the world answers (no-op,
  aborted fetch, edit sent, edit refused), the globals after \<^verbatim>\<open>update_price\<close> are the
  globals before it, and so they are after any number of job firings. Only \<^verbatim>\<open>start\<close>
  writes \<^verbatim>\<open>message_id\<close>, and only once its placeholder message was sent.
\<close>

theorem tick_keeps_message_id:
  "message_id (fst (update_price fs g w)) = message_id g
   \<and> fst (run_polling fs g (map JobFiring ws)) = g
   \<and> message_id (fst (start fs g w))
       = (case get_chat w (CHANNEL_ID g) of
            Inl details \<Rightarrow> message_id g
          | Inr chat \<Rightarrow>
              (case send_message w (CHANNEL_ID g) ''Starting price updates...'' of
                 Inl details \<Rightarrow> message_id g
               | Inr mid \<Rightarrow> Some mid))"
  by (simp add: update_price_globals job_firings_globals start_message_id)

text \<open>
  C10. The guard of \<^verbatim>\<open>update_price\<close> tests the truth value of \<^verbatim>\<open>message_id\<close>, not
  whether it is \<^verbatim>\<open>None\<close>. When the placeholder message gets the identifier 0,
  \<^verbatim>\<open>start\<close> does send it, stores 0 and arms the job, but its own update and every later
  tick return at the guard, without a fetch or an edit, in every world.
\<close>

theorem zero_message_id_is_no_message:
  assumes "get_chat w (CHANNEL_ID g) = Inr ()"
    and "send_message w (CHANNEL_ID g) ''Starting price updates...'' = Inr 0"
    and "run_repeating w = Inr ()"
  shows "start fs g w
           = (g\<lparr>message_id := Some 0\<rparr>, Inr (),
              [GetChat (CHANNEL_ID g), SendMessage (CHANNEL_ID g) ''Starting price updates...'',
               RunRepeating 300 0])
     \<and> update_price fs (g\<lparr>message_id := Some 0\<rparr>) w' = (g\<lparr>message_id := Some 0\<rparr>, [])
     \<and> run_polling fs (g\<lparr>message_id := Some 0\<rparr>) (map JobFiring ws) = (g\<lparr>message_id := Some 0\<rparr>, [])"
proof -
  have falsy: "not_message_id (message_id (g\<lparr>message_id := Some 0\<rparr>))"
    by (simp add: not_message_id_def)
  show ?thesis
    using assms
    by (simp add: start_def update_price_falsy [OF falsy] job_firings_falsy [OF falsy])
qed

theorem zero_message_id_witness:
  "start float_of_digits fresh zero_id_world
     = (\<lparr>CHANNEL_ID = ''@prices'', message_id = Some 0\<rparr>, Inr (),
        [GetChat ''@prices'', SendMessage ''@prices'' ''Starting price updates...'', RunRepeating 300 0])
   \<and> update_price float_of_digits \<lparr>CHANNEL_ID = ''@prices'', message_id = Some 0\<rparr> scenario_world
     = (\<lparr>CHANNEL_ID = ''@prices'', message_id = Some 0\<rparr>, [])"
  using zero_message_id_is_no_message [of zero_id_world fresh float_of_digits scenario_world "[]"]
  by (simp add: zero_id_world_def scenario_world_def fresh_def)

section \<open>Failure of the bootstrap\<close>

text \<open>
  C8. When \<^verbatim>\<open>get_chat\<close> or the placeholder \<^verbatim>\<open>send_message\<close> raises, \<^verbatim>\<open>start\<close> replies
  to the triggering user with the text that lists the three likely causes, the raw error
  detail and the configured channel id, and does nothing else: no \<open>RunRepeating\<close>, no
  fetch and no edit are among its calls, and the globals are unchanged. The process goes
  on: the events that follow, a new \<^verbatim>\<open>/start\<close> among them, are served from the same
  globals. (The outcome of \<^verbatim>\<open>start\<close> is that of the reply call.)
\<close>

theorem bootstrap_failure_replies_and_aborts:
  assumes "get_chat w (CHANNEL_ID g) = Inl details
     \<or> (get_chat w (CHANNEL_ID g) = Inr ()
         \<and> send_message w (CHANNEL_ID g) ''Starting price updates...'' = Inl details)"
  shows "start fs g w
      = (g, reply_text w (error_message details (CHANNEL_ID g)),
         (if get_chat w (CHANNEL_ID g) = Inr ()
          then [GetChat (CHANNEL_ID g), SendMessage (CHANNEL_ID g) ''Starting price updates...'']
          else [GetChat (CHANNEL_ID g)])
         @ [ReplyText (error_message details (CHANNEL_ID g))])
     \<and> error_message details (CHANNEL_ID g)
         = ''Error starting the bot. Please check:'' @ [CHR 0x0A]
           @ ''1. The bot is an admin in the channel'' @ [CHR 0x0A]
           @ ''2. The bot has permission to send and edit messages'' @ [CHR 0x0A]
           @ ''3. The channel ID is correct'' @ [CHR 0x0A]
           @ ''Error details: '' @ details @ [CHR 0x0A]
           @ ''Channel ID used: '' @ CHANNEL_ID g
     \<and> run_polling fs g (StartCommand w # evs)
         = (fst (run_polling fs g evs),
            (if get_chat w (CHANNEL_ID g) = Inr ()
             then [GetChat (CHANNEL_ID g), SendMessage (CHANNEL_ID g) ''Starting price updates...'']
             else [GetChat (CHANNEL_ID g)])
            @ [ReplyText (error_message details (CHANNEL_ID g))] @ snd (run_polling fs g evs))"
  using assms
  by (auto simp: start_def start_except_def error_message_def split: prod.splits)

theorem bootstrap_failure_witness:
  "get_chat no_channel_world ''@prices'' = Inl ''Chat not found''
   \<and> start float_of_digits fresh no_channel_world
      = (fresh, Inr (),
         [GetChat ''@prices'',
          ReplyText (''Error starting the bot. Please check:'' @ [CHR 0x0A]
           @ ''1. The bot is an admin in the channel'' @ [CHR 0x0A]
           @ ''2. The bot has permission to send and edit messages'' @ [CHR 0x0A]
           @ ''3. The channel ID is correct'' @ [CHR 0x0A]
           @ ''Error details: Chat not found'' @ [CHR 0x0A]
           @ ''Channel ID used: @prices'')])"
  using bootstrap_failure_replies_and_aborts
          [of no_channel_world fresh "''Chat not found''" float_of_digits "[]"]
  by (simp add: no_channel_world_def scenario_world_def fresh_def)

section \<open>The exchange-rates endpoint\<close>

text \<open>
  C7, as stated: some execution of the program issues an HTTP GET to the exchange-rates
  endpoint. It does not hold: \<^verbatim>\<open>get_exchange_rate\<close> is defined, but neither handler
  calls it, so no run of \<^verbatim>\<open>main\<close> issues that request.
\<close>

theorem exchange_rates_never_fetched:
  "\<not> (\<exists>fs token channel evs g acts.
         main fs token channel evs = Inr (g, acts) \<and> HttpGet exchange_rates_url \<in> set acts)"
proof
  assume "\<exists>fs token channel evs g acts.
         main fs token channel evs = Inr (g, acts) \<and> HttpGet exchange_rates_url \<in> set acts"
  then obtain fs token channel evs g acts
    where run: "main fs token channel evs = Inr (g, acts)"
      and got: "HttpGet exchange_rates_url \<in> set acts"
    by blast
  from run have "run_polling fs \<lparr>CHANNEL_ID = the channel, message_id = None\<rparr> evs = (g, acts)"
    by (simp add: main_def split: if_splits)
  from run_polling_gets [OF this got]
  have "exchange_rates_url = market_url \<or> exchange_rates_url = orderbook_url" .
  then show False by (simp add: urls_distinct)
qed

text \<open>
  C7, amended. The program defines \<^verbatim>\<open>get_exchange_rate\<close>, whose one call would be the GET
  of the exchange-rates endpoint, but no execution path invokes it: every HTTP GET a run
  of the program issues goes to the market-quotes endpoint or to the order-book endpoint,
  never to the exchange-rates endpoint.
\<close>

theorem program_fetches_two_endpoints:
  assumes "main fs token channel evs = Inr (g, acts)" and "HttpGet url \<in> set acts"
  shows "(url = market_url \<or> url = orderbook_url) \<and> url \<noteq> exchange_rates_url
     \<and> snd (get_exchange_rate w) = [HttpGet exchange_rates_url]"
proof -
  from assms(1) have "run_polling fs \<lparr>CHANNEL_ID = the channel, message_id = None\<rparr> evs = (g, acts)"
    by (simp add: main_def split: if_splits)
  from run_polling_gets [OF this assms(2)]
  have "url = market_url \<or> url = orderbook_url" .
  then show ?thesis
    using urls_distinct by (auto simp: get_exchange_rate_def)
qed

theorem program_fetches_witness:
  "main float_of_digits (Some ''token'') (Some ''@prices'') [StartCommand scenario_world]
     = Inr (tracking,
        [GetChat ''@prices'', SendMessage ''@prices'' ''Starting price updates...'',
         RunRepeating 300 0, HttpGet market_url, HttpGet orderbook_url,
         EditMessageText ''@prices'' 7
           ([CHR 0xF0, CHR 0x9F, CHR 0x92, CHR 0xB0] @ '' Bitcoin (BTC): $65,000.00'' @ [CHR 0x0A]
            @ [CHR 0xF0, CHR 0x9F, CHR 0x92, CHR 0x8E] @ '' Ethereum (ETH): $3,200.00'' @ [CHR 0x0A]
            @ [CHR 0xE2, CHR 0x9C, CHR 0xA8] @ '' Solana (SOL): $150.00'' @ [CHR 0x0A]
            @ [CHR 0xF0, CHR 0x9F, CHR 0x92, CHR 0xB5] @ '' Tether (USDT): 58,500 ''
            @ [CHR 0xD8, CHR 0xB1, CHR 0xDB, CHR 0x8C, CHR 0xD8, CHR 0xA7, CHR 0xD9, CHR 0x84])])
   \<and> market_url \<noteq> exchange_rates_url \<and> orderbook_url \<noteq> exchange_rates_url"
proof -
  have sent: "\<lparr>CHANNEL_ID = ''@prices'', message_id = Some 7\<rparr> = tracking"
    by (simp add: tracking_def)
  have run: "main float_of_digits (Some ''token'') (Some ''@prices'') [StartCommand scenario_world]
     = Inr (tracking,
        [GetChat ''@prices'', SendMessage ''@prices'' ''Starting price updates...'',
         RunRepeating 300 0, HttpGet market_url, HttpGet orderbook_url,
         EditMessageText ''@prices'' 7
           ([CHR 0xF0, CHR 0x9F, CHR 0x92, CHR 0xB0] @ '' Bitcoin (BTC): $65,000.00'' @ [CHR 0x0A]
            @ [CHR 0xF0, CHR 0x9F, CHR 0x92, CHR 0x8E] @ '' Ethereum (ETH): $3,200.00'' @ [CHR 0x0A]
            @ [CHR 0xE2, CHR 0x9C, CHR 0xA8] @ '' Solana (SOL): $150.00'' @ [CHR 0x0A]
            @ [CHR 0xF0, CHR 0x9F, CHR 0x92, CHR 0xB5] @ '' Tether (USDT): 58,500 ''
            @ [CHR 0xD8, CHR 0xB1, CHR 0xDB, CHR 0x8C, CHR 0xD8, CHR 0xA7, CHR 0xD9, CHR 0x84])])"
    using scenario_tick [OF float_of_digits_scenario]
    by (simp add: main_def start_def sent scenario_world_def)
  from program_fetches_two_endpoints [OF run, of market_url]
       program_fetches_two_endpoints [OF run, of orderbook_url]
  have "market_url \<noteq> exchange_rates_url \<and> orderbook_url \<noteq> exchange_rates_url"
    by simp
  with run show ?thesis by simp
qed

section \<open>The emitted text\<close>






end
